theory Spec2Isabelle
  imports Complex_Main
begin

section \<open>Python values shared by both source files\<close>

text \<open>
  Exceptions are values. An exception carries its class and the text that \<open>str(e)\<close>
  gives. The classes below are the ones the two source files raise themselves or meet
  through the interpreter, one constructor for every other class derived from
  \<open>Exception\<close>, and the four built-in classes that derive from \<open>BaseException\<close>
  without deriving from \<open>Exception\<close> (\<open>asyncio.CancelledError\<close> is one of them).
\<close>

datatype exc_class =
    IndexError
  | KeyError
  | TypeError
  | AttributeError
  | ValueError
  | FileNotFoundError
  | OtherException string
  | KeyboardInterrupt
  | SystemExit
  | GeneratorExit
  | CancelledError

datatype py_exception = PyExc (exc_type: exc_class) (str: string)

text \<open>\<open>isinstance(e, Exception)\<close>: what an \<open>except Exception\<close> clause catches.\<close>

fun subclass_of_Exception :: "exc_class \<Rightarrow> bool" where
  "subclass_of_Exception KeyboardInterrupt = False"
| "subclass_of_Exception SystemExit = False"
| "subclass_of_Exception GeneratorExit = False"
| "subclass_of_Exception CancelledError = False"
| "subclass_of_Exception _ = True"

definition isinstance_Exception :: "py_exception \<Rightarrow> bool" where
  "isinstance_Exception e = subclass_of_Exception (exc_type e)"

text \<open>
  The values \<open>json.loads\<close> produces: the configuration is such a value, and a dictionary
  is kept as its list of items, with distinct keys. Only the truth value of a number is
  ever used, so a float is any rational.
\<close>

datatype json =
    JNull
  | JBool bool
  | JInt int
  | JFloat rat
  | JString string
  | JArray "json list"
  | JObject "(string \<times> json) list"

text \<open>Python's truth value of such a value (\<open>bool(v)\<close>), and the name of its type.\<close>

fun truthy :: "json \<Rightarrow> bool" where
  "truthy JNull = False"
| "truthy (JBool b) = b"
| "truthy (JInt i) = (i \<noteq> 0)"
| "truthy (JFloat r) = (r \<noteq> 0)"
| "truthy (JString s) = (s \<noteq> [])"
| "truthy (JArray xs) = (xs \<noteq> [])"
| "truthy (JObject kvs) = (kvs \<noteq> [])"

fun type_name :: "json \<Rightarrow> string" where
  "type_name JNull = ''NoneType''"
| "type_name (JBool b) = ''bool''"
| "type_name (JInt i) = ''int''"
| "type_name (JFloat r) = ''float''"
| "type_name (JString s) = ''str''"
| "type_name (JArray xs) = ''list''"
| "type_name (JObject kvs) = ''dict''"

section \<open>targets/mcs\_agent\_callback.py\<close>

text \<open>
  The dataclass \<open>McsAgentConfig\<close>. Its four fields are annotated \<open>str\<close>; a dataclass
  keeps whatever value it is given, and \<open>create_mcs_agent_config\<close> gives it the values
  of the configuration as they are. The adapter only hands the fields on to the
  connection settings.
\<close>

record McsAgentConfig =
  tenant_id :: json
  app_client_id :: json
  environment_id :: json
  agent_identifier :: json

text \<open>One turn of the conversation history, as the engine passes it: \<open>message.role\<close> and
  \<open>message.content\<close>.\<close>

record message =
  role :: string
  content :: string

text \<open>A response event of the agent client: \<open>activity.type\<close> and \<open>activity.text\<close>. The type
  tag is a string enumeration, \<open>ActivityTypes.message\<close> being \<open>"message"\<close>; the text of an
  event may be \<open>None\<close>.\<close>

record activity =
  activity_type :: string
  activity_text :: "string option"

definition ActivityTypes_message :: string where
  "ActivityTypes_message = ''message''"

text \<open>
  \<open>McsConnectionSettings\<close> and \<open>McsCopilotClient\<close> come from \<open>src.CopilotStudioClient\<close>,
  which is not among the source files. They are a parameter of the model: for each of the
  four calls the adapter makes, what that call does in this invocation. A constructor or
  \<open>start_conversation_async\<close> either completes (\<open>None\<close>) or raises; \<open>ask_question_async\<close>
  raises or returns the response events.
\<close>

record backend =
  McsConnectionSettings :: "McsAgentConfig \<Rightarrow> py_exception option"
  McsCopilotClient :: "McsAgentConfig \<Rightarrow> py_exception option"
  start_conversation_async :: "py_exception option"
  ask_question_async :: "string \<Rightarrow> py_exception + activity list"

text \<open>Decimal text of an integer, as an f-string or an error message renders it, and a
  text between apostrophes, as the messages of both files quote a name.\<close>

fun str_nat :: "nat \<Rightarrow> string" where
  "str_nat n =
     (if n < 10 then [''0123456789'' ! n]
      else str_nat (n div 10) @ [''0123456789'' ! (n mod 10)])"

declare str_nat.simps [simp del]

definition str_int :: "int \<Rightarrow> string" where
  "str_int i = (if i < 0 then CHR ''-'' # str_nat (nat (- i)) else str_nat (nat i))"

definition quoted :: "string \<Rightarrow> string" where
  "quoted s = CHR 0x27 # s @ [CHR 0x27]"

text \<open>
  \<open>"".join(activity.text for activity in activities if activity.type == ActivityTypes.message)\<close>.
  \<open>str.join\<close> raises \<open>TypeError\<close> at the first item that is not a string.
\<close>

fun join_items :: "nat \<Rightarrow> string option list \<Rightarrow> py_exception + string" where
  "join_items i [] = Inr []"
| "join_items i (None # ts) =
     Inl (PyExc TypeError
       (''sequence item '' @ str_nat i @ '': expected str instance, NoneType found''))"
| "join_items i (Some t # ts) =
     (case join_items (Suc i) ts of Inl e \<Rightarrow> Inl e | Inr s \<Rightarrow> Inr (t @ s))"

definition join_message_texts :: "activity list \<Rightarrow> py_exception + string" where
  "join_message_texts activities =
     join_items 0
       (map activity_text (filter (\<lambda>a. activity_type a = ActivityTypes_message) activities))"

text \<open>\<open>xs[-1]\<close> and \<open>d[k]\<close>, with the exceptions Python raises, and \<open>d.get(k)\<close> on a
  dictionary whose values may be \<open>None\<close>.\<close>

definition getitem_last :: "'a list \<Rightarrow> py_exception + 'a" where
  "getitem_last xs =
     (if xs = [] then Inl (PyExc IndexError ''list index out of range'') else Inr (last xs))"

definition getitem_key :: "(string \<rightharpoonup> 'v) \<Rightarrow> string \<Rightarrow> py_exception + 'v" where
  "getitem_key d k =
     (case d k of None \<Rightarrow> Inl (PyExc KeyError (quoted k)) | Some v \<Rightarrow> Inr v)"

definition dict_get :: "(string \<rightharpoonup> 'v option) \<Rightarrow> string \<Rightarrow> 'v option" where
  "dict_get d k = (case d k of None \<Rightarrow> None | Some v \<Rightarrow> v)"

text \<open>
  A computation of the adapter gives a value or a raised exception, and the lines it has
  printed. The body of the \<open>try\<close> statement of \<open>mcs_agent_callback\<close>, from the connection
  settings to \<open>formatted_response\<close>: the first call that raises ends it.
\<close>

definition try_body ::
  "McsAgentConfig \<Rightarrow> backend \<Rightarrow> string
    \<Rightarrow> (py_exception + (string \<rightharpoonup> string option)) \<times> string list" where
  "try_body mcs_agent_config client_lib latest_message =
     (case McsConnectionSettings client_lib mcs_agent_config of
        Some e \<Rightarrow> (Inl e, [])
      | None \<Rightarrow>
     (case McsCopilotClient client_lib mcs_agent_config of
        Some e \<Rightarrow> (Inl e, [])
      | None \<Rightarrow>
     (case start_conversation_async client_lib of
        Some e \<Rightarrow> (Inl e, [])
      | None \<Rightarrow>
     (case ask_question_async client_lib latest_message of
        Inl e \<Rightarrow> (Inl e, [])
      | Inr activities \<Rightarrow>
     (case join_message_texts activities of
        Inl e \<Rightarrow> (Inl e, [])
      | Inr joined \<Rightarrow>
          (let content = Some joined in
           if content = None \<or> content = Some []
           then (Inr [''content'' \<mapsto> Some ''I cannot provide a response to this request.'',
                      ''role'' \<mapsto> Some ''assistant''],
                 [''Warning: MCS Agent returned None or empty content, using default message''])
           else (Inr [''content'' \<mapsto> content, ''role'' \<mapsto> Some ''assistant''], [])))))))"

text \<open>
  The \<open>try\<close> statement with its handler: \<open>except Exception\<close> catches what derives from
  \<open>Exception\<close>, prints the error and sets the fallback response; any other exception
  passes.
\<close>

definition try_except ::
  "McsAgentConfig \<Rightarrow> backend \<Rightarrow> string
    \<Rightarrow> (py_exception + (string \<rightharpoonup> string option)) \<times> string list" where
  "try_except mcs_agent_config client_lib latest_message =
     (case try_body mcs_agent_config client_lib latest_message of
        (Inr formatted_response, out) \<Rightarrow> (Inr formatted_response, out)
      | (Inl e, out) \<Rightarrow>
          if isinstance_Exception e
          then (Inr [''content'' \<mapsto>
                       Some ''I encountered an error and couldn't process your request.'',
                     ''role'' \<mapsto> Some ''assistant''],
                out @ [''Error calling Microsoft Copilot Studio Agent: '' @ str e])
          else (Inl e, out))"

text \<open>
  \<open>mcs_agent_callback\<close>, the closure that \<open>create_callback\<close> returns; the configuration it
  closes over is its first argument. The arguments \<open>stream\<close>, \<open>session_state\<close> and
  \<open>context\<close> are never read and are left out. The last turn is taken before the \<open>try\<close>
  statement; after the statement comes the check that the content is not \<open>None\<close>, and
  the response is returned in a dictionary under \<open>"messages"\<close>.
\<close>

definition mcs_agent_callback ::
  "McsAgentConfig \<Rightarrow> backend \<Rightarrow> message list
    \<Rightarrow> (py_exception + (string \<rightharpoonup> (string \<rightharpoonup> string option) list)) \<times> string list" where
  "mcs_agent_callback mcs_agent_config client_lib messages =
     (let messages_list =
            map (\<lambda>m. [''role'' \<mapsto> role m, ''content'' \<mapsto> content m]) messages
      in case getitem_last messages_list of
           Inl e \<Rightarrow> (Inl e, [])
         | Inr latest \<Rightarrow>
      (case getitem_key latest ''content'' of
           Inl e \<Rightarrow> (Inl e, [])
         | Inr latest_message \<Rightarrow>
      (case try_except mcs_agent_config client_lib latest_message of
           (Inl e, out) \<Rightarrow> (Inl e, out)
         | (Inr formatted_response, out) \<Rightarrow>
             if dict_get formatted_response ''content'' = None
             then (Inr [''messages'' \<mapsto>
                          [formatted_response(''content'' \<mapsto> Some ''No response available.'')]],
                   out @ [''Warning: Formatted response content was None, replaced with default''])
             else (Inr [''messages'' \<mapsto> [formatted_response]], out))))"

text \<open>\<open>create_callback\<close> returns the closure, and \<open>get_target\<close> returns what
  \<open>create_callback\<close> returns.\<close>

definition create_callback ::
  "McsAgentConfig \<Rightarrow> backend \<Rightarrow> message list
    \<Rightarrow> (py_exception + (string \<rightharpoonup> (string \<rightharpoonup> string option) list)) \<times> string list" where
  "create_callback mcs_agent_config = mcs_agent_callback mcs_agent_config"

definition get_target ::
  "McsAgentConfig \<Rightarrow> backend \<Rightarrow> message list
    \<Rightarrow> (py_exception + (string \<rightharpoonup> (string \<rightharpoonup> string option) list)) \<times> string list" where
  "get_target mcs_agent_config = create_callback mcs_agent_config"

section \<open>red\_team\_scan.py\<close>

subsection \<open>Environment-variable substitution\<close>







subsection \<open>The agent configuration and the target\<close>

text \<open>
  \<open>create_mcs_agent_config\<close>. \<open>config_data.get("mcs_agent", {})\<close> is the section or an empty
  dictionary; a section that is not a dictionary has no \<open>get\<close>. \<open>all\<close> is over the truth
  values of the four \<open>mcs_config.get(...)\<close>, \<open>None\<close> for a missing key.
\<close>

definition get_truthy :: "(string \<times> json) list \<Rightarrow> string \<Rightarrow> bool" where
  "get_truthy d k = (case map_of d k of None \<Rightarrow> False | Some v \<Rightarrow> truthy v)"

definition getitem_json :: "(string \<times> json) list \<Rightarrow> string \<Rightarrow> py_exception + json" where
  "getitem_json d k =
     (case map_of d k of None \<Rightarrow> Inl (PyExc KeyError (quoted k)) | Some v \<Rightarrow> Inr v)"

definition create_mcs_agent_config ::
  "(string \<times> json) list \<Rightarrow> py_exception + McsAgentConfig option" where
  "create_mcs_agent_config config_data =
     (case (case map_of config_data ''mcs_agent'' of None \<Rightarrow> JObject [] | Some v \<Rightarrow> v) of
        JObject mcs_config \<Rightarrow>
          if \<not> list_all (\<lambda>b. b)
                 [get_truthy mcs_config ''tenant_id'', get_truthy mcs_config ''app_client_id'',
                  get_truthy mcs_config ''environment_id'',
                  get_truthy mcs_config ''agent_identifier'']
          then Inr None
          else (case getitem_json mcs_config ''tenant_id'' of Inl e \<Rightarrow> Inl e | Inr t \<Rightarrow>
               (case getitem_json mcs_config ''app_client_id'' of Inl e \<Rightarrow> Inl e | Inr a \<Rightarrow>
               (case getitem_json mcs_config ''environment_id'' of Inl e \<Rightarrow> Inl e | Inr n \<Rightarrow>
               (case getitem_json mcs_config ''agent_identifier'' of Inl e \<Rightarrow> Inl e | Inr i \<Rightarrow>
                  Inr (Some \<lparr>tenant_id = t, app_client_id = a, environment_id = n,
                             agent_identifier = i\<rparr>)))))
      | v \<Rightarrow>
          Inl (PyExc AttributeError
                (quoted (type_name v) @ '' object has no attribute '' @ quoted ''get'')))"

text \<open>\<open>create_target\<close>. \<open>not mcs_agent_config\<close> holds for \<open>None\<close> only: an instance of the
  dataclass is true.\<close>

definition create_target ::
  "string \<Rightarrow> McsAgentConfig option
    \<Rightarrow> py_exception +
       (backend \<Rightarrow> message list
         \<Rightarrow> (py_exception + (string \<rightharpoonup> (string \<rightharpoonup> string option) list)) \<times> string list)" where
  "create_target target_type mcs_agent_config =
     (if target_type = ''mcs_agent_callback''
      then (case mcs_agent_config of
              None \<Rightarrow>
                Inl (PyExc ValueError
                      ''MCS Agent config is required for MCS Agent callback target'')
            | Some c \<Rightarrow> Inr (get_target c))
      else Inl (PyExc ValueError
                 (''Unsupported target type: '' @ target_type @ ''. Only ''
                  @ quoted ''mcs_agent_callback'' @ '' is supported.'')))"

subsection \<open>Attack strategies\<close>

text \<open>
  \<open>str.upper\<close> is the upper-casing of Python's Unicode texts; a text is kept here as a list
  of characters, a character beyond ASCII as the bytes of its UTF-8 encoding. The case
  mapping of Unicode is not written out: \<open>str.upper\<close> is a parameter, \<open>str_upper\<close>, of
  \<open>parse_attack_strategies\<close>.

  \<open>AttackStrategy\<close> is a class of the engine. It is a parameter too: the attribute each
  name gives on the class, a member of the enumeration or any other attribute a class
  has, \<open>None\<close> where the class has no attribute of that name; and the text of the
  \<open>AttributeError\<close> that the interpreter raises for such a name (on CPython 3.11 the name
  itself). \<open>AttackStrategy.EASY\<close> is \<open>getattr(AttackStrategy, "EASY")\<close>.
\<close>

record 'a python_class =
  attribute :: "string \<rightharpoonup> 'a"
  no_attribute_text :: "string \<Rightarrow> string"

definition getattr :: "'a python_class \<Rightarrow> string \<Rightarrow> py_exception + 'a" where
  "getattr cls name =
     (case attribute cls name of
        None \<Rightarrow> Inl (PyExc AttributeError (no_attribute_text cls name))
      | Some a \<Rightarrow> Inr a)"

text \<open>\<open>parse_attack_strategies\<close>: the loop, with the list built so far, and the function.\<close>

fun parse_attack_strategies_loop ::
  "(string \<Rightarrow> string) \<Rightarrow> 'a python_class \<Rightarrow> 'a list \<Rightarrow> string list
    \<Rightarrow> py_exception + 'a list" where
  "parse_attack_strategies_loop str_upper AttackStrategy attack_strategies [] =
     Inr attack_strategies"
| "parse_attack_strategies_loop str_upper AttackStrategy attack_strategies
     (strategy_str # rest) =
     (case (if str_upper strategy_str = ''EASY''
            then getattr AttackStrategy ''EASY''
            else if str_upper strategy_str = ''MODERATE''
            then getattr AttackStrategy ''MODERATE''
            else if str_upper strategy_str = ''DIFFICULT''
            then getattr AttackStrategy ''DIFFICULT''
            else getattr AttackStrategy strategy_str) of
        Inl e \<Rightarrow> Inl e
      | Inr a \<Rightarrow>
          parse_attack_strategies_loop str_upper AttackStrategy (attack_strategies @ [a]) rest)"

definition parse_attack_strategies ::
  "(string \<Rightarrow> string) \<Rightarrow> 'a python_class \<Rightarrow> string list \<Rightarrow> py_exception + 'a list" where
  "parse_attack_strategies str_upper AttackStrategy strategy_strings =
     parse_attack_strategies_loop str_upper AttackStrategy [] strategy_strings"

subsection \<open>The engine instance\<close>

text \<open>
  \<open>RedTeam\<close> is a class of the engine; a call of its constructor is recorded as the
  keyword arguments it is given, \<open>None\<close> for a keyword that is not passed. The credential
  that \<open>DefaultAzureCredential()\<close> gives and \<open>os.path.exists\<close> are parameters.
\<close>

record ('cred, 'rc) RedTeam =
  azure_ai_project :: string
  credential :: 'cred
  risk_categories :: "'rc list option"
  num_objectives :: "int option"
  custom_attack_seed_prompts :: "string option"

definition create_red_team ::
  "(string \<Rightarrow> bool) \<Rightarrow> 'cred \<Rightarrow> string \<Rightarrow> 'rc list \<Rightarrow> int \<Rightarrow> string option
    \<Rightarrow> ('cred, 'rc) RedTeam \<times> string list" where
  "create_red_team path_exists cred project_endpoint categories objectives custom_prompts_path =
     (let standard =
            (\<lparr>azure_ai_project = project_endpoint, credential = cred,
              risk_categories = Some categories, num_objectives = Some objectives,
              custom_attack_seed_prompts = None\<rparr>,
             [''Using standard risk categories with '' @ str_int objectives @ '' objectives''])
      in case custom_prompts_path of
           None \<Rightarrow> standard
         | Some p \<Rightarrow>
             if p \<noteq> [] \<and> path_exists p
             then (\<lparr>azure_ai_project = project_endpoint, credential = cred,
                     risk_categories = None, num_objectives = None,
                     custom_attack_seed_prompts = Some p\<rparr>,
                   [''Using custom prompts from: '' @ p])
             else standard)"

section \<open>Notions and inputs of the statements\<close>

text \<open>
  A step of the \<open>try\<close> body raises \<open>e\<close> on the question \<open>q\<close>: the connection settings, or the
  client, or the opening of the session, or the question, or the joining of the texts,
  every step before it having completed.
\<close>

definition guarded_step_raises ::
  "McsAgentConfig \<Rightarrow> backend \<Rightarrow> string \<Rightarrow> py_exception \<Rightarrow> bool" where
  "guarded_step_raises c b q e \<longleftrightarrow>
     McsConnectionSettings b c = Some e
   \<or> McsConnectionSettings b c = None \<and> McsCopilotClient b c = Some e
   \<or> McsConnectionSettings b c = None \<and> McsCopilotClient b c = None
       \<and> start_conversation_async b = Some e
   \<or> McsConnectionSettings b c = None \<and> McsCopilotClient b c = None
       \<and> start_conversation_async b = None
       \<and> (case ask_question_async b q of
             Inl e' \<Rightarrow> e' = e
           | Inr activities \<Rightarrow> join_message_texts activities = Inl e)"

text \<open>The texts of the message events of a response, in the order received, one after the
  other.\<close>

definition concatenated_message_texts :: "activity list \<Rightarrow> string" where
  "concatenated_message_texts activities =
     concat (map (\<lambda>a. case activity_text a of None \<Rightarrow> [] | Some t \<Rightarrow> t)
                 (filter (\<lambda>a. activity_type a = ActivityTypes_message) activities))"

definition message_events_have_text :: "activity list \<Rightarrow> bool" where
  "message_events_have_text activities =
     list_all (\<lambda>a. activity_type a = ActivityTypes_message \<longrightarrow> activity_text a \<noteq> None)
       activities"

text \<open>A configuration, a turn, and backends: one that answers with the given events, one
  whose session opening raises the given exception, and one whose question does; and
  events: a message with a text, a message without, and a typing indicator.\<close>

definition config_example :: McsAgentConfig where
  "config_example =
     \<lparr>tenant_id = JString ''tenant'', app_client_id = JString ''app'',
      environment_id = JString ''env'', agent_identifier = JString ''agent''\<rparr>"

definition hello :: message where
  "hello = \<lparr>role = ''user'', content = ''Hello''\<rparr>"

definition backend_answering :: "activity list \<Rightarrow> backend" where
  "backend_answering activities =
     \<lparr>McsConnectionSettings = (\<lambda>c. None), McsCopilotClient = (\<lambda>c. None),
      start_conversation_async = None, ask_question_async = (\<lambda>q. Inr activities)\<rparr>"



definition message_event :: "string \<Rightarrow> activity" where
  "message_event t = \<lparr>activity_type = ''message'', activity_text = Some t\<rparr>"

definition message_without_text :: activity where
  "message_without_text = \<lparr>activity_type = ''message'', activity_text = None\<rparr>"

definition typing_event :: activity where
  "typing_event = \<lparr>activity_type = ''typing'', activity_text = None\<rparr>"








text \<open>
  What the parsing of strategy names is measured against. On a text of ASCII characters
  \<open>str.upper\<close> makes every small letter the capital letter and leaves every other
  character. Two texts are equal but for case when making every capital ASCII letter
  small makes them equal. The attribute that a strategy name is looked up as is \<open>EASY\<close>,
  \<open>MODERATE\<close> or \<open>DIFFICULT\<close> when the upper-cased name is that word, and the name as it
  is spelled otherwise.
\<close>

definition ascii :: "string \<Rightarrow> bool" where
  "ascii s = list_all (\<lambda>c. (of_char c :: nat) < 128) s"

definition upper_char :: "char \<Rightarrow> char" where
  "upper_char c =
     (if 97 \<le> (of_char c :: nat) \<and> (of_char c :: nat) \<le> 122
      then char_of ((of_char c :: nat) - 32) else c)"

definition ascii_upper :: "string \<Rightarrow> string" where
  "ascii_upper s = map upper_char s"

definition lower_char :: "char \<Rightarrow> char" where
  "lower_char c =
     (if 65 \<le> (of_char c :: nat) \<and> (of_char c :: nat) \<le> 90
      then char_of ((of_char c :: nat) + 32) else c)"

definition lower :: "string \<Rightarrow> string" where
  "lower s = map lower_char s"

definition equal_ignoring_case :: "string \<Rightarrow> string \<Rightarrow> bool" where
  "equal_ignoring_case a b \<longleftrightarrow> lower a = lower b"

definition attribute_name :: "(string \<Rightarrow> string) \<Rightarrow> string \<Rightarrow> string" where
  "attribute_name str_upper name =
     (if str_upper name = ''EASY'' then ''EASY''
      else if str_upper name = ''MODERATE'' then ''MODERATE''
      else if str_upper name = ''DIFFICULT'' then ''DIFFICULT''
      else name)"

text \<open>
  An upper-casing that is \<open>str.upper\<close> on ASCII text and on the long s (U+017F, the bytes
  C5 BF), whose capital is \<open>S\<close>. A class with the three tiers and the strategy \<open>Flip\<close>, its
  members numbered, and with the name every class has under \<open>__name__\<close>, which is no member;
  the text of its errors is that of CPython 3.11.
\<close>

fun str_upper_example :: "string \<Rightarrow> string" where
  "str_upper_example [] = []"
| "str_upper_example [c] = [upper_char c]"
| "str_upper_example (c # d # s) =
     (if c = CHR 0xC5 \<and> d = CHR 0xBF then CHR ''S'' # str_upper_example s
      else upper_char c # str_upper_example (d # s))"

datatype 'm class_attribute = Member 'm | Other string

definition AttackStrategy_example :: "nat class_attribute python_class" where
  "AttackStrategy_example =
     \<lparr>attribute =
        [''EASY'' \<mapsto> Member 0, ''MODERATE'' \<mapsto> Member 1, ''DIFFICULT'' \<mapsto> Member 2,
         ''Flip'' \<mapsto> Member 3, ''__name__'' \<mapsto> Other ''AttackStrategy''],
      no_attribute_text = (\<lambda>name. name)\<rparr>"

text \<open>The \<open>mcs_agent\<close> section of a configuration as \<open>create_mcs_agent_config\<close> reads it: the
  dictionary under that key, the empty dictionary when the key is absent, and none when
  the value under the key is not a dictionary.\<close>

definition mcs_agent_section :: "(string \<times> json) list \<Rightarrow> (string \<times> json) list option" where
  "mcs_agent_section config_data =
     (case map_of config_data ''mcs_agent'' of
        None \<Rightarrow> Some []
      | Some (JObject entries) \<Rightarrow> Some entries
      | Some other \<Rightarrow> None)"

definition mcs_agent_fields :: "string list" where
  "mcs_agent_fields = [''tenant_id'', ''app_client_id'', ''environment_id'', ''agent_identifier'']"

definition config_data_example :: "json \<Rightarrow> (string \<times> json) list" where
  "config_data_example app =
     [(''target'', JObject [(''type'', JString ''mcs_agent_callback'')]),
      (''mcs_agent'',
       JObject [(''tenant_id'', JString ''tenant''), (''app_client_id'', app),
                (''environment_id'', JString ''env''), (''agent_identifier'', JString ''agent'')])]"

section \<open>The adapter\<close>

lemma join_items_texts:
  "list_all (\<lambda>t. t \<noteq> None) ts
    \<Longrightarrow> join_items i ts = Inr (concat (map (\<lambda>t. case t of None \<Rightarrow> [] | Some x \<Rightarrow> x) ts))"
proof (induction ts arbitrary: i)
  case Nil
  show ?case by simp
next
  case (Cons t ts)
  then obtain x where "t = Some x" by auto
  with Cons show ?case by simp
qed

lemma join_message_texts_eq:
  assumes "message_events_have_text activities"
  shows "join_message_texts activities = Inr (concatenated_message_texts activities)"
proof -
  let ?sel = "filter (\<lambda>a. activity_type a = ActivityTypes_message) activities"
  have "list_all (\<lambda>t. t \<noteq> None) (map activity_text ?sel)"
    using assms by (auto simp: message_events_have_text_def list_all_iff)
  then have "join_items 0 (map activity_text ?sel)
      = Inr (concat (map (\<lambda>t. case t of None \<Rightarrow> [] | Some x \<Rightarrow> x) (map activity_text ?sel)))"
    by (rule join_items_texts)
  then show ?thesis
    by (simp add: join_message_texts_def concatenated_message_texts_def comp_def)
qed

lemma join_items_returns:
  "join_items i ts = Inr s \<Longrightarrow> list_all (\<lambda>t. t \<noteq> None) ts"
proof (induction ts arbitrary: i s)
  case Nil
  show ?case by simp
next
  case (Cons t ts)
  then show ?case
    by (cases t) (auto split: sum.splits)
qed

text \<open>The joining of the texts returns exactly when every message event carries a text,
  and then it returns the texts one after the other; it raises when one carries \<open>None\<close>.\<close>

lemma join_message_texts_returns_iff:
  "join_message_texts activities = Inr s
    \<longleftrightarrow> message_events_have_text activities \<and> concatenated_message_texts activities = s"
proof
  assume r: "join_message_texts activities = Inr s"
  then have "list_all (\<lambda>t. t \<noteq> None)
      (map activity_text (filter (\<lambda>a. activity_type a = ActivityTypes_message) activities))"
    unfolding join_message_texts_def by (rule join_items_returns)
  then have h: "message_events_have_text activities"
    by (auto simp: message_events_have_text_def list_all_iff)
  with r join_message_texts_eq [OF h]
  show "message_events_have_text activities \<and> concatenated_message_texts activities = s"
    by simp
next
  assume "message_events_have_text activities \<and> concatenated_message_texts activities = s"
  then show "join_message_texts activities = Inr s"
    using join_message_texts_eq [of activities] by simp
qed

lemma latest_message_of_turns:
  "messages \<noteq> []
    \<Longrightarrow> mcs_agent_callback c b messages =
        (case try_except c b (content (last messages)) of
           (Inl e, out) \<Rightarrow> (Inl e, out)
         | (Inr formatted_response, out) \<Rightarrow>
             if dict_get formatted_response ''content'' = None
             then (Inr [''messages'' \<mapsto>
                          [formatted_response(''content'' \<mapsto> Some ''No response available.'')]],
                   out @ [''Warning: Formatted response content was None, replaced with default''])
             else (Inr [''messages'' \<mapsto> [formatted_response]], out))"
  by (simp add: mcs_agent_callback_def getitem_last_def getitem_key_def last_map)


lemma try_body_cases:
  "(\<exists>e. guarded_step_raises c b q e \<and> try_body c b q = (Inl e, []))
   \<or> (\<exists>s out. try_body c b q =
         (Inr [''content'' \<mapsto> Some s, ''role'' \<mapsto> Some ''assistant''], out))"
  by (auto simp: guarded_step_raises_def try_body_def split: sum.splits option.splits)

lemma try_except_cases:
  "(\<exists>e. \<not> isinstance_Exception e \<and> guarded_step_raises c b q e
        \<and> try_except c b q = (Inl e, []))
   \<or> (\<exists>s out. try_except c b q =
         (Inr [''content'' \<mapsto> Some s, ''role'' \<mapsto> Some ''assistant''], out))"
proof -
  consider (raised) e where "guarded_step_raises c b q e" "try_body c b q = (Inl e, [])"
    | (completed) s out where
        "try_body c b q = (Inr [''content'' \<mapsto> Some s, ''role'' \<mapsto> Some ''assistant''], out)"
    using try_body_cases [of c b q] by blast
  then show ?thesis
  proof cases
    case raised
    show ?thesis
    proof (cases "isinstance_Exception e")
      case True
      with raised have "try_except c b q =
          (Inr [''content'' \<mapsto> Some ''I encountered an error and couldn't process your request.'',
                ''role'' \<mapsto> Some ''assistant''],
           [''Error calling Microsoft Copilot Studio Agent: '' @ str e])"
        by (simp add: try_except_def)
      then show ?thesis by blast
    next
      case False
      with raised have "try_except c b q = (Inl e, [])"
        by (simp add: try_except_def)
      with raised False show ?thesis by blast
    qed
  next
    case completed
    then have "try_except c b q =
        (Inr [''content'' \<mapsto> Some s, ''role'' \<mapsto> Some ''assistant''], out)"
      by (simp add: try_except_def)
    then show ?thesis by blast
  qed
qed

lemma try_body_returns:
  "try_body c b q = (Inr formatted_response, out)
    \<Longrightarrow> \<exists>activities joined.
          ask_question_async b q = Inr activities
        \<and> join_message_texts activities = Inr joined
        \<and> (joined = []
             \<and> formatted_response =
                 [''content'' \<mapsto> Some ''I cannot provide a response to this request.'',
                  ''role'' \<mapsto> Some ''assistant'']
           \<or> joined \<noteq> []
             \<and> formatted_response = [''content'' \<mapsto> Some joined, ''role'' \<mapsto> Some ''assistant''])"
  by (auto simp: try_body_def split: option.splits sum.splits if_splits)

lemma try_body_printed:
  "snd (try_body c b q) = []
   \<or> snd (try_body c b q) =
       [''Warning: MCS Agent returned None or empty content, using default message'']"
  by (auto simp: try_body_def split: option.splits sum.splits)

lemma try_except_printed:
  "''Warning: Formatted response content was None, replaced with default''
     \<notin> set (snd (try_except c b q))"
proof -
  obtain r out where t: "try_body c b q = (r, out)" by (cases "try_body c b q")
  with try_body_printed [of c b q]
  have o: "out = [] \<or> out = [''Warning: MCS Agent returned None or empty content, using default message'']"
    by simp
  show ?thesis
  proof (cases r)
    case (Inl e)
    with t o show ?thesis by (auto simp: try_except_def)
  next
    case (Inr f)
    with t o show ?thesis by (auto simp: try_except_def)
  qed
qed

lemma try_except_content:
  "try_except c b q = (Inr formatted_response, out)
    \<Longrightarrow> \<exists>s. formatted_response = [''content'' \<mapsto> Some s, ''role'' \<mapsto> Some ''assistant'']"
  using try_except_cases [of c b q] by auto

lemma try_except_returns:
  "try_except c b q = (Inr formatted_response, out)
    \<Longrightarrow> formatted_response =
          [''content'' \<mapsto> Some ''I encountered an error and couldn't process your request.'',
           ''role'' \<mapsto> Some ''assistant'']
        \<or> (\<exists>out'. try_body c b q = (Inr formatted_response, out'))"
  by (cases "try_body c b q") (auto simp: try_except_def split: sum.splits if_splits)

text \<open>
  C8. On an empty sequence of turns the adapter raises: taking the last turn fails with
  an \<open>IndexError\<close> before the \<open>try\<close> statement is entered, whatever the backend would do,
  and nothing is printed. The exception derives from \<open>Exception\<close>, so the handler would
  have caught it inside the statement; the containment starts at the connection settings.
\<close>

theorem mcs_agent_callback_empty_raises:
  "mcs_agent_callback c b [] = (Inl (PyExc IndexError ''list index out of range''), [])
   \<and> isinstance_Exception (PyExc IndexError ''list index out of range'')"
  by (simp add: mcs_agent_callback_def getitem_last_def isinstance_Exception_def)




text \<open>
  C2, as amended. For a non-empty sequence of turns, when the settings, the client, the
  opening of the session and the question complete and the response events are
  \<open>activities\<close>, every message event carrying a text (not \<open>None\<close>), and the texts of the message events, joined in the order
  received, are not the empty text, the adapter returns that text as the content, with
  role \<open>"assistant"\<close>; the other events add nothing, and nothing is printed.
\<close>

theorem mcs_agent_callback_concatenates:
  assumes "messages \<noteq> []"
    and "McsConnectionSettings b c = None"
    and "McsCopilotClient b c = None"
    and "start_conversation_async b = None"
    and "ask_question_async b (content (last messages)) = Inr activities"
    and "message_events_have_text activities"
    and "concatenated_message_texts activities \<noteq> []"
  shows "mcs_agent_callback c b messages =
     (Inr [''messages'' \<mapsto>
             [[''content'' \<mapsto> Some (concatenated_message_texts activities),
               ''role'' \<mapsto> Some ''assistant'']]],
      [])"
proof -
  have "join_message_texts activities = Inr (concatenated_message_texts activities)"
    using assms(6) by (rule join_message_texts_eq)
  with assms(2-5,7) have "try_body c b (content (last messages)) =
      (Inr [''content'' \<mapsto> Some (concatenated_message_texts activities),
            ''role'' \<mapsto> Some ''assistant''], [])"
    by (simp add: try_body_def)
  then have "try_except c b (content (last messages)) =
      (Inr [''content'' \<mapsto> Some (concatenated_message_texts activities),
            ''role'' \<mapsto> Some ''assistant''], [])"
    by (simp add: try_except_def)
  with assms(1) show ?thesis
    by (simp add: latest_message_of_turns dict_get_def)
qed

theorem mcs_agent_callback_concatenates_witness:
  "[hello] \<noteq> []
   \<and> McsConnectionSettings
        (backend_answering [message_event ''Hi '', typing_event, message_event ''there''])
        config_example = None
   \<and> McsCopilotClient
        (backend_answering [message_event ''Hi '', typing_event, message_event ''there''])
        config_example = None
   \<and> start_conversation_async
        (backend_answering [message_event ''Hi '', typing_event, message_event ''there'']) = None
   \<and> ask_question_async
        (backend_answering [message_event ''Hi '', typing_event, message_event ''there''])
        (content (last [hello])) =
       Inr [message_event ''Hi '', typing_event, message_event ''there'']
   \<and> message_events_have_text [message_event ''Hi '', typing_event, message_event ''there'']
   \<and> concatenated_message_texts [message_event ''Hi '', typing_event, message_event ''there'']
       = ''Hi there''
   \<and> mcs_agent_callback config_example
        (backend_answering [message_event ''Hi '', typing_event, message_event ''there''])
        [hello] =
       (Inr [''messages'' \<mapsto>
               [[''content'' \<mapsto> Some ''Hi there'', ''role'' \<mapsto> Some ''assistant'']]],
        [])"
proof -
  let ?acts = "[message_event ''Hi '', typing_event, message_event ''there'']"
  let ?b = "backend_answering ?acts"
  have n: "[hello] \<noteq> []" by simp
  have s: "McsConnectionSettings ?b config_example = None"
    and k: "McsCopilotClient ?b config_example = None"
    and o: "start_conversation_async ?b = None"
    and a: "ask_question_async ?b (content (last [hello])) = Inr ?acts"
    by (simp_all add: backend_answering_def)
  have t: "message_events_have_text ?acts"
    by (simp add: message_events_have_text_def message_event_def typing_event_def
          ActivityTypes_message_def)
  have v: "concatenated_message_texts ?acts = ''Hi there''"
    by (simp add: concatenated_message_texts_def message_event_def typing_event_def
          ActivityTypes_message_def)
  then have e: "concatenated_message_texts ?acts \<noteq> []" by simp
  have "mcs_agent_callback config_example ?b [hello] =
       (Inr [''messages'' \<mapsto>
               [[''content'' \<mapsto> Some ''Hi there'', ''role'' \<mapsto> Some ''assistant'']]],
        [])"
    using mcs_agent_callback_concatenates [OF n s k o a t e] v by simp
  with n s k o a t v show ?thesis by blast
qed

text \<open>
  C2 as stated fails: the question completes with two message events, the first with the
  text \<open>"Hi"\<close> and the second with no text (\<open>None\<close>); the texts of the message events make
  \<open>"Hi"\<close>, which is not empty, yet \<open>str.join\<close> raises a \<open>TypeError\<close> at the second event and
  the adapter returns the error reply.
\<close>

theorem mcs_agent_callback_concatenates_counterexample:
  "[hello] \<noteq> []
   \<and> McsConnectionSettings (backend_answering [message_event ''Hi'', message_without_text])
        config_example = None
   \<and> McsCopilotClient (backend_answering [message_event ''Hi'', message_without_text])
        config_example = None
   \<and> start_conversation_async (backend_answering [message_event ''Hi'', message_without_text])
       = None
   \<and> ask_question_async (backend_answering [message_event ''Hi'', message_without_text])
        (content (last [hello])) = Inr [message_event ''Hi'', message_without_text]
   \<and> concatenated_message_texts [message_event ''Hi'', message_without_text] = ''Hi''
   \<and> mcs_agent_callback config_example
        (backend_answering [message_event ''Hi'', message_without_text]) [hello] =
       (Inr [''messages'' \<mapsto>
               [[''content'' \<mapsto> Some ''I encountered an error and couldn't process your request.'',
                 ''role'' \<mapsto> Some ''assistant'']]],
        [''Error calling Microsoft Copilot Studio Agent: sequence item 1: expected str instance, NoneType found''])"
  by (simp add: mcs_agent_callback_def getitem_last_def getitem_key_def try_except_def
        try_body_def backend_answering_def message_event_def message_without_text_def
        join_message_texts_def concatenated_message_texts_def ActivityTypes_message_def
        dict_get_def isinstance_Exception_def hello_def str_nat.simps)

text \<open>
  C4, as amended. For a non-empty sequence of turns, when the settings, the client, the
  opening of the session and the question complete, every message event carries a text
  (not \<open>None\<close>) and those texts, joined, are the empty text, the adapter returns the content
  \<open>"I cannot provide a response to this request."\<close> with role \<open>"assistant"\<close> under
  \<open>"messages"\<close>, and prints its warning.
\<close>

theorem mcs_agent_callback_empty_content:
  assumes "messages \<noteq> []"
    and "McsConnectionSettings b c = None"
    and "McsCopilotClient b c = None"
    and "start_conversation_async b = None"
    and "ask_question_async b (content (last messages)) = Inr activities"
    and "message_events_have_text activities"
    and "concatenated_message_texts activities = []"
  shows "mcs_agent_callback c b messages =
     (Inr [''messages'' \<mapsto>
             [[''content'' \<mapsto> Some ''I cannot provide a response to this request.'',
               ''role'' \<mapsto> Some ''assistant'']]],
      [''Warning: MCS Agent returned None or empty content, using default message''])"
proof -
  have "join_message_texts activities = Inr []"
    using join_message_texts_eq [OF assms(6)] assms(7) by simp
  with assms(2-5) have "try_body c b (content (last messages)) =
      (Inr [''content'' \<mapsto> Some ''I cannot provide a response to this request.'',
            ''role'' \<mapsto> Some ''assistant''],
       [''Warning: MCS Agent returned None or empty content, using default message''])"
    by (simp add: try_body_def)
  then have "try_except c b (content (last messages)) =
      (Inr [''content'' \<mapsto> Some ''I cannot provide a response to this request.'',
            ''role'' \<mapsto> Some ''assistant''],
       [''Warning: MCS Agent returned None or empty content, using default message''])"
    by (simp add: try_except_def)
  with assms(1) show ?thesis
    by (simp add: latest_message_of_turns dict_get_def)
qed

theorem mcs_agent_callback_empty_content_witness:
  "[hello] \<noteq> []
   \<and> McsConnectionSettings (backend_answering [typing_event, message_event []])
        config_example = None
   \<and> McsCopilotClient (backend_answering [typing_event, message_event []])
        config_example = None
   \<and> start_conversation_async (backend_answering [typing_event, message_event []]) = None
   \<and> ask_question_async (backend_answering [typing_event, message_event []])
        (content (last [hello])) = Inr [typing_event, message_event []]
   \<and> message_events_have_text [typing_event, message_event []]
   \<and> concatenated_message_texts [typing_event, message_event []] = []
   \<and> mcs_agent_callback config_example (backend_answering [typing_event, message_event []])
        [hello] =
       (Inr [''messages'' \<mapsto>
               [[''content'' \<mapsto> Some ''I cannot provide a response to this request.'',
                 ''role'' \<mapsto> Some ''assistant'']]],
        [''Warning: MCS Agent returned None or empty content, using default message''])"
proof -
  let ?acts = "[typing_event, message_event []]"
  let ?b = "backend_answering ?acts"
  have n: "[hello] \<noteq> []" by simp
  have s: "McsConnectionSettings ?b config_example = None"
    and k: "McsCopilotClient ?b config_example = None"
    and o: "start_conversation_async ?b = None"
    and a: "ask_question_async ?b (content (last [hello])) = Inr ?acts"
    by (simp_all add: backend_answering_def)
  have t: "message_events_have_text ?acts"
    by (simp add: message_events_have_text_def message_event_def typing_event_def
          ActivityTypes_message_def)
  have e: "concatenated_message_texts ?acts = []"
    by (simp add: concatenated_message_texts_def message_event_def typing_event_def
          ActivityTypes_message_def)
  note mcs_agent_callback_empty_content [OF n s k o a t e]
  with n s k o a t e show ?thesis by blast
qed

text \<open>
  C4 as stated fails: the question completes with one message event that has no text
  (\<open>None\<close>); the texts of the message events make the empty text, the content is absent,
  yet \<open>str.join\<close> raises a \<open>TypeError\<close> and the adapter returns the error reply, not the
  reply for an empty content.
\<close>

theorem mcs_agent_callback_empty_content_counterexample:
  "[hello] \<noteq> []
   \<and> McsConnectionSettings (backend_answering [message_without_text]) config_example = None
   \<and> McsCopilotClient (backend_answering [message_without_text]) config_example = None
   \<and> start_conversation_async (backend_answering [message_without_text]) = None
   \<and> ask_question_async (backend_answering [message_without_text]) (content (last [hello]))
       = Inr [message_without_text]
   \<and> concatenated_message_texts [message_without_text] = []
   \<and> mcs_agent_callback config_example (backend_answering [message_without_text]) [hello] =
       (Inr [''messages'' \<mapsto>
               [[''content'' \<mapsto> Some ''I encountered an error and couldn't process your request.'',
                 ''role'' \<mapsto> Some ''assistant'']]],
        [''Error calling Microsoft Copilot Studio Agent: sequence item 0: expected str instance, NoneType found''])"
  by (simp add: mcs_agent_callback_def getitem_last_def getitem_key_def try_except_def
        try_body_def backend_answering_def message_without_text_def
        join_message_texts_def concatenated_message_texts_def ActivityTypes_message_def
        dict_get_def isinstance_Exception_def hello_def str_nat.simps)

text \<open>
  C3. For a non-empty sequence of turns and every backend, the value the adapter returns
  holds one message whose content is a text, never \<open>None\<close>, with role \<open>"assistant"\<close>. It
  returns such a value on every invocation but one in which a step of the \<open>try\<close> body
  raises an exception that does not derive from \<open>Exception\<close>: that exception passes the
  handler and no value is returned.
\<close>

theorem mcs_agent_callback_content_never_none:
  assumes "messages \<noteq> []"
  shows "(\<exists>s out. mcs_agent_callback c b messages =
            (Inr [''messages'' \<mapsto> [[''content'' \<mapsto> Some s, ''role'' \<mapsto> Some ''assistant'']]], out))
       \<or> (\<exists>e. \<not> isinstance_Exception e
              \<and> guarded_step_raises c b (content (last messages)) e
              \<and> mcs_agent_callback c b messages = (Inl e, []))"
proof -
  let ?q = "content (last messages)"
  consider (raised) e where "\<not> isinstance_Exception e" "guarded_step_raises c b ?q e"
      "try_except c b ?q = (Inl e, [])"
    | (returned) s out where
      "try_except c b ?q = (Inr [''content'' \<mapsto> Some s, ''role'' \<mapsto> Some ''assistant''], out)"
    using try_except_cases [of c b ?q] by blast
  then show ?thesis
  proof cases
    case raised
    with assms have "mcs_agent_callback c b messages = (Inl e, [])"
      by (simp add: latest_message_of_turns)
    with raised show ?thesis by blast
  next
    case returned
    with assms have "mcs_agent_callback c b messages =
        (Inr [''messages'' \<mapsto> [[''content'' \<mapsto> Some s, ''role'' \<mapsto> Some ''assistant'']]], out)"
      by (simp add: latest_message_of_turns dict_get_def)
    then show ?thesis by blast
  qed
qed


theorem mcs_agent_callback_content_never_none_witness:
  "[hello] \<noteq> []
   \<and> ((\<exists>s out. mcs_agent_callback config_example (backend_answering []) [hello] =
            (Inr [''messages'' \<mapsto> [[''content'' \<mapsto> Some s, ''role'' \<mapsto> Some ''assistant'']]], out))
       \<or> (\<exists>e. \<not> isinstance_Exception e
              \<and> guarded_step_raises config_example (backend_answering [])
                   (content (last [hello])) e
              \<and> mcs_agent_callback config_example (backend_answering []) [hello] = (Inl e, [])))"
proof -
  have n: "[hello] \<noteq> []" by simp
  from mcs_agent_callback_content_never_none [OF n, of config_example "backend_answering []"] n
  show ?thesis by blast
qed

text \<open>
  C9, as amended. The last check of the adapter never fires: every response that leaves
  the \<open>try\<close> statement has a content that is not \<open>None\<close>, and the warning of the check is
  never printed. The adapter returns the content \<open>"No response available."\<close> only when the
  question completed and the joined texts of the message events are that very text.
\<close>

theorem null_guard_never_fires:
  "(try_except c b q = (Inr formatted_response, out)
      \<longrightarrow> dict_get formatted_response ''content'' \<noteq> None)
   \<and> ''Warning: Formatted response content was None, replaced with default''
        \<notin> set (snd (mcs_agent_callback c b messages))
   \<and> (mcs_agent_callback c b messages = (Inr returned, out')
        \<and> returned ''messages'' = Some [reply]
        \<and> dict_get reply ''content'' = Some ''No response available.''
      \<longrightarrow> (\<exists>activities.
             ask_question_async b (content (last messages)) = Inr activities
           \<and> join_message_texts activities = Inr ''No response available.''))"
proof (intro conjI impI)
  assume "try_except c b q = (Inr formatted_response, out)"
  from try_except_content [OF this]
  show "dict_get formatted_response ''content'' \<noteq> None"
    by (auto simp: dict_get_def)
next
  show "''Warning: Formatted response content was None, replaced with default''
          \<notin> set (snd (mcs_agent_callback c b messages))"
  proof (cases "messages = []")
    case True
    then show ?thesis by (simp add: mcs_agent_callback_def getitem_last_def)
  next
    case False
    let ?q = "content (last messages)"
    obtain r o1 where t: "try_except c b ?q = (r, o1)" by (cases "try_except c b ?q")
    with try_except_printed [of c b ?q]
    have p: "''Warning: Formatted response content was None, replaced with default'' \<notin> set o1"
      by simp
    show ?thesis
    proof (cases r)
      case (Inl e)
      with False t p show ?thesis by (simp add: latest_message_of_turns)
    next
      case (Inr f)
      with t have "dict_get f ''content'' \<noteq> None"
        using try_except_content [of c b ?q f o1] by (auto simp: dict_get_def)
      with False t p Inr show ?thesis by (simp add: latest_message_of_turns)
    qed
  qed
next
  assume a: "mcs_agent_callback c b messages = (Inr returned, out')
        \<and> returned ''messages'' = Some [reply]
        \<and> dict_get reply ''content'' = Some ''No response available.''"
  then have ne: "messages \<noteq> []"
    by (auto simp: mcs_agent_callback_def getitem_last_def)
  let ?q = "content (last messages)"
  obtain r o1 where t: "try_except c b ?q = (r, o1)" by (cases "try_except c b ?q")
  from a ne t obtain f where r: "r = Inr f"
    by (cases r) (auto simp: latest_message_of_turns)
  from try_except_content [of c b ?q f o1] t r
  have nn: "dict_get f ''content'' \<noteq> None" by (auto simp: dict_get_def)
  with a ne t r have "returned = [''messages'' \<mapsto> [f]]"
    by (simp add: latest_message_of_turns)
  with a have "f = reply" by simp
  with a have fc: "dict_get f ''content'' = Some ''No response available.''" by simp
  from try_except_returns [of c b ?q f o1] t r
  consider "f = [''content'' \<mapsto> Some ''I encountered an error and couldn't process your request.'',
           ''role'' \<mapsto> Some ''assistant'']"
    | o2 where "try_body c b ?q = (Inr f, o2)" by auto
  then show "\<exists>activities.
             ask_question_async b (content (last messages)) = Inr activities
           \<and> join_message_texts activities = Inr ''No response available.''"
  proof cases
    case 1
    with fc show ?thesis by (simp add: dict_get_def)
  next
    case 2
    from try_body_returns [OF this] obtain activities joined where
      j: "ask_question_async b ?q = Inr activities" "join_message_texts activities = Inr joined"
      and f: "joined = [] \<and> f = [''content'' \<mapsto> Some ''I cannot provide a response to this request.'',
                  ''role'' \<mapsto> Some ''assistant'']
           \<or> joined \<noteq> [] \<and> f = [''content'' \<mapsto> Some joined, ''role'' \<mapsto> Some ''assistant'']"
      by blast
    from f fc have "joined = ''No response available.''"
      by (auto simp: dict_get_def)
    with j show ?thesis by blast
  qed
qed


theorem null_guard_never_fires_witness:
  "try_except config_example (backend_answering [message_event ''No response available.''])
     ''Hello'' =
     (Inr [''content'' \<mapsto> Some ''No response available.'', ''role'' \<mapsto> Some ''assistant''], [])
   \<and> dict_get [''content'' \<mapsto> Some ''No response available.'', ''role'' \<mapsto> Some ''assistant'']
        ''content'' \<noteq> None
   \<and> ''Warning: Formatted response content was None, replaced with default''
        \<notin> set (snd (mcs_agent_callback config_example
                        (backend_answering [message_event ''No response available.'']) [hello]))
   \<and> mcs_agent_callback config_example
        (backend_answering [message_event ''No response available.'']) [hello] =
       (Inr [''messages'' \<mapsto>
               [[''content'' \<mapsto> Some ''No response available.'', ''role'' \<mapsto> Some ''assistant'']]],
        [])
   \<and> (\<exists>activities.
         ask_question_async (backend_answering [message_event ''No response available.''])
           (content (last [hello])) = Inr activities
       \<and> join_message_texts activities = Inr ''No response available.'')"
proof -
  let ?b = "backend_answering [message_event ''No response available.'']"
  let ?f = "[''content'' \<mapsto> Some ''No response available.'', ''role'' \<mapsto> Some ''assistant'']"
  have t: "try_except config_example ?b ''Hello'' = (Inr ?f, [])"
    by (simp add: try_except_def try_body_def backend_answering_def message_event_def
          join_message_texts_def ActivityTypes_message_def)
  have m: "mcs_agent_callback config_example ?b [hello] = (Inr [''messages'' \<mapsto> [?f]], [])"
    using t by (simp add: latest_message_of_turns hello_def dict_get_def)
  have g: "[''messages'' \<mapsto> [?f]] ''messages'' = Some [?f]" by simp
  have d: "dict_get ?f ''content'' = Some ''No response available.''"
    by (simp add: dict_get_def)
  from null_guard_never_fires
    [where c = config_example and b = ?b and q = "''Hello''" and formatted_response = ?f
       and out = "[]" and messages = "[hello]" and returned = "[''messages'' \<mapsto> [?f]]"
       and out' = "[]" and reply = ?f]
    t m g d
  show ?thesis by blast
qed

text \<open>
  C9 as stated fails in its last part: when the agent itself answers with the text
  \<open>"No response available."\<close>, that text is the content the adapter returns, the check not
  having fired.
\<close>

theorem null_guard_never_fires_counterexample:
  "mcs_agent_callback config_example
     (backend_answering [message_event ''No response available.'']) [hello] =
   (Inr [''messages'' \<mapsto>
           [[''content'' \<mapsto> Some ''No response available.'', ''role'' \<mapsto> Some ''assistant'']]],
    [])"
  by (simp add: mcs_agent_callback_def getitem_last_def getitem_key_def try_except_def
        try_body_def backend_answering_def message_event_def join_message_texts_def
        ActivityTypes_message_def dict_get_def)

section \<open>The configuration file\<close>








section \<open>The attack strategies\<close>

lemma lower_upper_char: "lower_char (upper_char c) = lower_char c"
  by (auto simp: lower_char_def upper_char_def)

lemma upper_lower_char: "upper_char (lower_char c) = upper_char c"
  by (auto simp: lower_char_def upper_char_def)

lemma lower_upper: "lower (ascii_upper s) = lower s"
  by (simp add: lower_def ascii_upper_def lower_upper_char)

lemma upper_lower: "ascii_upper (lower s) = ascii_upper s"
  by (simp add: lower_def ascii_upper_def upper_lower_char)

lemma upper_eq_iff:
  assumes "ascii_upper t = t"
  shows "ascii_upper s = t \<longleftrightarrow> equal_ignoring_case s t"
proof
  assume "ascii_upper s = t"
  then have "lower (ascii_upper s) = lower t" by simp
  then show "equal_ignoring_case s t"
    by (simp add: lower_upper equal_ignoring_case_def)
next
  assume "equal_ignoring_case s t"
  then have "ascii_upper (lower s) = ascii_upper (lower t)"
    by (simp add: equal_ignoring_case_def)
  with assms show "ascii_upper s = t"
    by (simp add: upper_lower)
qed

lemma upper_tiers:
  "ascii_upper ''EASY'' = ''EASY''" "ascii_upper ''MODERATE'' = ''MODERATE''"
  "ascii_upper ''DIFFICULT'' = ''DIFFICULT''"
  by code_simp+

lemma str_upper_example_ascii: "ascii s \<Longrightarrow> str_upper_example s = ascii_upper s"
proof (induction s rule: str_upper_example.induct)
  case 1
  show ?case by (simp add: ascii_upper_def)
next
  case (2 c)
  show ?case by (simp add: ascii_upper_def)
next
  case (3 c d s)
  from 3(3) have c: "(of_char c :: nat) < 128" and r: "ascii (d # s)"
    by (simp_all add: ascii_def)
  have "(of_char (CHR 0xC5) :: nat) = 197" by simp
  with c have n: "c \<noteq> CHR 0xC5" by auto
  with 3(2) r show ?case by (simp add: ascii_upper_def)
qed

lemma attribute_name_ascii:
  assumes "\<forall>s. ascii s \<longrightarrow> str_upper s = ascii_upper s" and "ascii name"
  shows "attribute_name str_upper name =
     (if equal_ignoring_case name ''EASY'' then ''EASY''
      else if equal_ignoring_case name ''MODERATE'' then ''MODERATE''
      else if equal_ignoring_case name ''DIFFICULT'' then ''DIFFICULT''
      else name)"
proof -
  have "str_upper name = ascii_upper name"
    using assms by simp
  then show ?thesis
    by (simp add: attribute_name_def upper_eq_iff [OF upper_tiers(1)]
          upper_eq_iff [OF upper_tiers(2)] upper_eq_iff [OF upper_tiers(3)])
qed

lemma lookup_attribute_name:
  "(if str_upper s = ''EASY''
    then getattr A ''EASY''
    else if str_upper s = ''MODERATE''
    then getattr A ''MODERATE''
    else if str_upper s = ''DIFFICULT''
    then getattr A ''DIFFICULT''
    else getattr A s) =
   getattr A (attribute_name str_upper s)"
  by (simp add: attribute_name_def)

lemma loop_attribute_name:
  "parse_attack_strategies_loop str_upper A acc names =
     (case find (\<lambda>s. attribute A (attribute_name str_upper s) = None) names of
        None \<Rightarrow> Inr (acc @ map (\<lambda>s. the (attribute A (attribute_name str_upper s))) names)
      | Some x \<Rightarrow>
          Inl (PyExc AttributeError (no_attribute_text A (attribute_name str_upper x))))"
proof (induction names arbitrary: acc)
  case Nil
  show ?case by simp
next
  case (Cons s names)
  show ?case
  proof (cases "attribute A (attribute_name str_upper s)")
    case None
    then show ?thesis
      by (simp only: parse_attack_strategies_loop.simps lookup_attribute_name)
        (simp add: getattr_def)
  next
    case (Some a)
    then show ?thesis
      by (simp only: parse_attack_strategies_loop.simps lookup_attribute_name Cons.IH)
        (simp add: getattr_def split: option.splits)
  qed
qed

text \<open>
  C6, as amended. Let \<open>str_upper\<close> be \<open>str.upper\<close>, of which only its values on ASCII text are
  used, and let the class have the three tiers. A name whose upper-cased text is \<open>EASY\<close>,
  \<open>MODERATE\<close> or \<open>DIFFICULT\<close> is looked up as that tier, and an ASCII name is such a name
  exactly when it is equal but for case to the word; every other name is looked up with its
  own spelling. The lookup is \<open>getattr\<close> on the class: it gives whatever attribute the
  class has under the name, a member of the enumeration or not. When the class has an
  attribute for every name the result lists the attributes in order; otherwise the call
  raises the interpreter's \<open>AttributeError\<close> for the first name without one, which is no
  tier, and returns no list. In particular \<open>["easy", "Flip"]\<close> gives the tier \<open>EASY\<close> and the
  strategy \<open>Flip\<close>.
\<close>

theorem parse_attack_strategies_resolves:
  assumes "\<forall>s. ascii s \<longrightarrow> str_upper s = ascii_upper s"
    and "attribute A ''EASY'' \<noteq> None" and "attribute A ''MODERATE'' \<noteq> None"
    and "attribute A ''DIFFICULT'' \<noteq> None"
  shows "(ascii name \<longrightarrow>
            attribute_name str_upper name =
              (if equal_ignoring_case name ''EASY'' then ''EASY''
               else if equal_ignoring_case name ''MODERATE'' then ''MODERATE''
               else if equal_ignoring_case name ''DIFFICULT'' then ''DIFFICULT''
               else name))
       \<and> ((\<forall>s \<in> set names. attribute A (attribute_name str_upper s) \<noteq> None) \<longrightarrow>
            (\<exists>attributes. parse_attack_strategies str_upper A names = Inr attributes
                \<and> map Some attributes =
                    map (\<lambda>s. attribute A (attribute_name str_upper s)) names))
       \<and> ((\<exists>s \<in> set names. attribute A (attribute_name str_upper s) = None) \<longrightarrow>
            (\<exists>x. find (\<lambda>s. attribute A (attribute_name str_upper s) = None) names = Some x
                \<and> x \<in> set names \<and> attribute_name str_upper x = x \<and> attribute A x = None
                \<and> parse_attack_strategies str_upper A names =
                    Inl (PyExc AttributeError (no_attribute_text A x))))
       \<and> (attribute A ''EASY'' = Some easy \<and> attribute A ''Flip'' = Some flip \<longrightarrow>
            parse_attack_strategies str_upper A [''easy'', ''Flip''] = Inr [easy, flip])"
proof (intro conjI impI)
  assume "ascii name"
  with assms(1) show "attribute_name str_upper name =
              (if equal_ignoring_case name ''EASY'' then ''EASY''
               else if equal_ignoring_case name ''MODERATE'' then ''MODERATE''
               else if equal_ignoring_case name ''DIFFICULT'' then ''DIFFICULT''
               else name)"
    by (rule attribute_name_ascii)
next
  let ?at = "\<lambda>s. attribute A (attribute_name str_upper s)"
  assume all: "\<forall>s \<in> set names. ?at s \<noteq> None"
  then have "find (\<lambda>s. ?at s = None) names = None"
    by (simp add: find_None_iff)
  then have "parse_attack_strategies str_upper A names = Inr (map (\<lambda>s. the (?at s)) names)"
    by (simp add: parse_attack_strategies_def loop_attribute_name)
  moreover have "map Some (map (\<lambda>s. the (?at s)) names) = map ?at names"
    using all by (induction names) auto
  ultimately show "\<exists>attributes. parse_attack_strategies str_upper A names = Inr attributes
                \<and> map Some attributes = map ?at names"
    by blast
next
  let ?at = "\<lambda>s. attribute A (attribute_name str_upper s)"
  assume "\<exists>s \<in> set names. ?at s = None"
  then obtain x where f: "find (\<lambda>s. ?at s = None) names = Some x"
    by (cases "find (\<lambda>s. ?at s = None) names") (auto simp: find_None_iff)
  then have x: "x \<in> set names" "?at x = None"
    by (auto simp: find_Some_iff)
  with assms(2-4) have k: "attribute_name str_upper x = x"
    by (auto simp: attribute_name_def split: if_splits)
  with x have a: "attribute A x = None" by simp
  have "parse_attack_strategies str_upper A names =
      Inl (PyExc AttributeError (no_attribute_text A x))"
    using f k by (simp add: parse_attack_strategies_def loop_attribute_name)
  with f x(1) k a
  show "\<exists>x. find (\<lambda>s. ?at s = None) names = Some x
                \<and> x \<in> set names \<and> attribute_name str_upper x = x \<and> attribute A x = None
                \<and> parse_attack_strategies str_upper A names =
                    Inl (PyExc AttributeError (no_attribute_text A x))"
    by blast
next
  assume ef: "attribute A ''EASY'' = Some easy \<and> attribute A ''Flip'' = Some flip"
  have "ascii ''easy''" "ascii ''Flip''" by code_simp+
  then have u: "str_upper ''easy'' = ascii_upper ''easy''"
    "str_upper ''Flip'' = ascii_upper ''Flip''"
    using assms(1) by simp_all
  have "ascii_upper ''easy'' = ''EASY''" "ascii_upper ''Flip'' = ''FLIP''" by code_simp+
  with u have "attribute_name str_upper ''easy'' = ''EASY''"
    "attribute_name str_upper ''Flip'' = ''Flip''"
    by (simp_all add: attribute_name_def)
  with ef show "parse_attack_strategies str_upper A [''easy'', ''Flip''] = Inr [easy, flip]"
    by (simp add: parse_attack_strategies_def loop_attribute_name)
qed

theorem parse_attack_strategies_resolves_witness:
  "ascii ''DiffiCult''
   \<and> equal_ignoring_case ''DiffiCult'' ''DIFFICULT''
   \<and> attribute_name str_upper_example ''DiffiCult'' = ''DIFFICULT''
   \<and> attribute AttackStrategy_example ''EASY'' = Some (Member 0)
   \<and> attribute AttackStrategy_example ''MODERATE'' = Some (Member 1)
   \<and> attribute AttackStrategy_example ''DIFFICULT'' = Some (Member 2)
   \<and> attribute AttackStrategy_example ''Flip'' = Some (Member 3)
   \<and> parse_attack_strategies str_upper_example AttackStrategy_example
        [''easy'', ''Flip'', ''DiffiCult'', [CHR ''e'', CHR ''a'', CHR 0xC5, CHR 0xBF, CHR ''y''],
         ''__name__''] =
       Inr [Member 0, Member 3, Member 2, Member 0, Other ''AttackStrategy'']
   \<and> attribute AttackStrategy_example ''flip'' = None
   \<and> parse_attack_strategies str_upper_example AttackStrategy_example
        [''Moderate'', ''flip'', ''Flop''] = Inl (PyExc AttributeError ''flip'')
   \<and> parse_attack_strategies str_upper_example AttackStrategy_example [''easy'', ''Flip''] =
       Inr [Member 0, Member 3]"
proof -
  let ?A = AttackStrategy_example and ?u = str_upper_example
  let ?good = "[''easy'', ''Flip'', ''DiffiCult'',
                [CHR ''e'', CHR ''a'', CHR 0xC5, CHR 0xBF, CHR ''y''], ''__name__'']"
    and ?bad = "[''Moderate'', ''flip'', ''Flop'']"
  have u: "\<forall>s. ascii s \<longrightarrow> ?u s = ascii_upper s"
    by (simp add: str_upper_example_ascii)
  have a: "attribute ?A ''EASY'' = Some (Member 0)" "attribute ?A ''MODERATE'' = Some (Member 1)"
    "attribute ?A ''DIFFICULT'' = Some (Member 2)" "attribute ?A ''Flip'' = Some (Member 3)"
    "attribute ?A ''flip'' = None"
    by (simp_all add: AttackStrategy_example_def)
  then have t: "attribute ?A ''EASY'' \<noteq> None" "attribute ?A ''MODERATE'' \<noteq> None"
    "attribute ?A ''DIFFICULT'' \<noteq> None"
    by simp_all
  have d: "ascii ''DiffiCult''" "equal_ignoring_case ''DiffiCult'' ''DIFFICULT''"
    by code_simp+
  have rg: "map (\<lambda>s. attribute ?A (attribute_name ?u s)) ?good =
      [Some (Member 0), Some (Member 3), Some (Member 2), Some (Member 0),
       Some (Other ''AttackStrategy'')]"
    by code_simp
  have rb: "map (\<lambda>s. attribute ?A (attribute_name ?u s)) ?bad = [Some (Member 1), None, None]"
    by code_simp
  have hg: "\<forall>s \<in> set ?good. attribute ?A (attribute_name ?u s) \<noteq> None"
    using rg by simp
  have hb: "\<exists>s \<in> set ?bad. attribute ?A (attribute_name ?u s) = None"
    using rb by simp
  have fb: "find (\<lambda>s. attribute ?A (attribute_name ?u s) = None) ?bad = Some ''flip''"
    using rb by simp
  note n = parse_attack_strategies_resolves
    [where str_upper = ?u and A = ?A and name = "''DiffiCult''", OF u t,
     THEN conjunct1, THEN mp, OF d(1)]
  note g = parse_attack_strategies_resolves
    [where str_upper = ?u and A = ?A and names = ?good, OF u t,
     THEN conjunct2, THEN conjunct1, THEN mp, OF hg]
  note b = parse_attack_strategies_resolves
    [where str_upper = ?u and A = ?A and names = ?bad, OF u t,
     THEN conjunct2, THEN conjunct2, THEN conjunct1, THEN mp, OF hb]
  note f = parse_attack_strategies_resolves
    [where str_upper = ?u and A = ?A and easy = "Member 0" and flip = "Member 3", OF u t,
     THEN conjunct2, THEN conjunct2, THEN conjunct2, THEN mp]
  have "\<not> equal_ignoring_case ''DiffiCult'' ''EASY''"
    "\<not> equal_ignoring_case ''DiffiCult'' ''MODERATE''"
    by code_simp+
  with n d(2) have n': "attribute_name ?u ''DiffiCult'' = ''DIFFICULT''"
    by simp
  from g rg have g': "parse_attack_strategies ?u ?A ?good =
      Inr [Member 0, Member 3, Member 2, Member 0, Other ''AttackStrategy'']"
    by auto
  from b fb have b': "parse_attack_strategies ?u ?A ?bad = Inl (PyExc AttributeError ''flip'')"
    by (auto simp: AttackStrategy_example_def)
  from f a have f': "parse_attack_strategies ?u ?A [''easy'', ''Flip''] =
      Inr [Member 0, Member 3]"
    by simp
  from d a n' g' b' f' show ?thesis by blast
qed

text \<open>
  C6 as stated fails in its last part: \<open>__name__\<close> is no tier and no member of the
  enumeration, and the class has an attribute of that name, as every class has; the call
  does not fail and returns the name of the class in place of a strategy.
\<close>

theorem parse_attack_strategies_resolves_counterexample:
  "\<not> equal_ignoring_case ''__name__'' ''EASY''
   \<and> \<not> equal_ignoring_case ''__name__'' ''MODERATE''
   \<and> \<not> equal_ignoring_case ''__name__'' ''DIFFICULT''
   \<and> attribute AttackStrategy_example ''__name__'' = Some (Other ''AttackStrategy'')
   \<and> parse_attack_strategies str_upper_example AttackStrategy_example [''__name__''] =
       Inr [Other ''AttackStrategy'']"
  by code_simp

section \<open>The engine instance and the target\<close>

text \<open>
  C7. \<open>create_red_team\<close> builds the engine instance in one of two ways and never mixes
  them: when a path of custom prompts is given, is not empty and exists, with the custom
  seed prompts and without risk categories and number of objectives; in every other
  case with the risk categories and the number of objectives and without custom prompts.
\<close>

theorem create_red_team_modes:
  "((\<exists>p. custom_prompts_path = Some p \<and> p \<noteq> [] \<and> path_exists p) \<longrightarrow>
      fst (create_red_team path_exists cred endpoint categories objectives custom_prompts_path) =
        \<lparr>azure_ai_project = endpoint, credential = cred, risk_categories = None,
         num_objectives = None, custom_attack_seed_prompts = custom_prompts_path\<rparr>)
   \<and> (\<not> (\<exists>p. custom_prompts_path = Some p \<and> p \<noteq> [] \<and> path_exists p) \<longrightarrow>
      fst (create_red_team path_exists cred endpoint categories objectives custom_prompts_path) =
        \<lparr>azure_ai_project = endpoint, credential = cred, risk_categories = Some categories,
         num_objectives = Some objectives, custom_attack_seed_prompts = None\<rparr>)
   \<and> \<not> (custom_attack_seed_prompts
            (fst (create_red_team path_exists cred endpoint categories objectives
                    custom_prompts_path)) \<noteq> None
        \<and> (risk_categories
             (fst (create_red_team path_exists cred endpoint categories objectives
                     custom_prompts_path)) \<noteq> None
           \<or> num_objectives
               (fst (create_red_team path_exists cred endpoint categories objectives
                       custom_prompts_path)) \<noteq> None))"
  by (cases custom_prompts_path) (auto simp: create_red_team_def Let_def)


theorem create_red_team_modes_witness:
  "fst (create_red_team (\<lambda>p. p = ''prompts.json'') () ''https://project'' [''Violence''] 1
         (Some ''prompts.json'')) =
     \<lparr>azure_ai_project = ''https://project'', credential = (), risk_categories = None,
      num_objectives = None, custom_attack_seed_prompts = Some ''prompts.json''\<rparr>
   \<and> fst (create_red_team (\<lambda>p. p = ''prompts.json'') () ''https://project'' [''Violence''] 1
         (Some ''missing.json'')) =
     \<lparr>azure_ai_project = ''https://project'', credential = (),
      risk_categories = Some [''Violence''], num_objectives = Some 1,
      custom_attack_seed_prompts = None\<rparr>"
proof -
  let ?ex = "\<lambda>p. p = ''prompts.json''"
  have y: "\<exists>p. Some ''prompts.json'' = Some p \<and> p \<noteq> [] \<and> ?ex p"
    by simp
  have n: "\<not> (\<exists>p. Some ''missing.json'' = Some p \<and> p \<noteq> [] \<and> ?ex p)"
    by simp
  note c = create_red_team_modes
    [where path_exists = ?ex and custom_prompts_path = "Some ''prompts.json''" and cred = "()"
       and endpoint = "''https://project''" and categories = "[''Violence'']"
       and objectives = 1,
     THEN conjunct1, THEN mp, OF y]
  note s = create_red_team_modes
    [where path_exists = ?ex and custom_prompts_path = "Some ''missing.json''" and cred = "()"
       and endpoint = "''https://project''" and categories = "[''Violence'']"
       and objectives = 1,
     THEN conjunct2, THEN conjunct1, THEN mp, OF n]
  from c s show ?thesis by blast
qed

lemma get_truthy_falsy:
  "map_of entries k = None \<or> map_of entries k = Some (JString []) \<Longrightarrow> \<not> get_truthy entries k"
  by (auto simp: get_truthy_def)

text \<open>A section that is present and is not a dictionary has no \<open>get\<close>: the call raises an
  \<open>AttributeError\<close>. The statement below is about the other configurations.\<close>

lemma create_mcs_agent_config_section_not_dict:
  assumes "mcs_agent_section config_data = None"
  shows "\<exists>v. map_of config_data ''mcs_agent'' = Some v
           \<and> create_mcs_agent_config config_data =
              Inl (PyExc AttributeError
                    (quoted (type_name v) @ '' object has no attribute '' @ quoted ''get''))"
proof -
  from assms obtain v where v: "map_of config_data ''mcs_agent'' = Some v"
    and n: "\<And>entries. v \<noteq> JObject entries"
    by (auto simp: mcs_agent_section_def split: option.splits json.splits)
  have "create_mcs_agent_config config_data =
      Inl (PyExc AttributeError
            (quoted (type_name v) @ '' object has no attribute '' @ quoted ''get''))"
  proof (cases v)
    case (JObject entries)
    with n [of entries] show ?thesis by simp
  qed (simp_all add: create_mcs_agent_config_def v)
  with v show ?thesis by blast
qed

text \<open>
  C10, as amended. For a configuration whose \<open>mcs_agent\<close> section is a dictionary, or is
  absent: when one of the four fields \<open>tenant_id\<close>, \<open>app_client_id\<close>, \<open>environment_id\<close>,
  \<open>agent_identifier\<close> is missing from the section or is the empty text,
  \<open>create_mcs_agent_config\<close> returns \<open>None\<close>, and \<open>create_target\<close> for the supported type, given
  \<open>None\<close>, raises a \<open>ValueError\<close> and builds no adapter. For a configuration whose
  \<open>mcs_agent\<close> section is present and is not a dictionary, \<open>create_mcs_agent_config\<close> returns
  nothing: it raises an \<open>AttributeError\<close>, the value of the section having no \<open>get\<close>.
\<close>

theorem create_mcs_agent_config_unconfigured:
  "(mcs_agent_section config_data = Some entries \<and> field \<in> set mcs_agent_fields
      \<and> (map_of entries field = None \<or> map_of entries field = Some (JString [])) \<longrightarrow>
        create_mcs_agent_config config_data = Inr None
      \<and> create_target ''mcs_agent_callback'' None =
          Inl (PyExc ValueError ''MCS Agent config is required for MCS Agent callback target''))
   \<and> (mcs_agent_section config_data = None \<longrightarrow>
        (\<exists>v. map_of config_data ''mcs_agent'' = Some v
           \<and> create_mcs_agent_config config_data =
              Inl (PyExc AttributeError
                    (quoted (type_name v) @ '' object has no attribute '' @ quoted ''get''))))"
proof (intro conjI impI)
  assume a: "mcs_agent_section config_data = Some entries \<and> field \<in> set mcs_agent_fields
      \<and> (map_of entries field = None \<or> map_of entries field = Some (JString []))"
  then have s: "(case map_of config_data ''mcs_agent'' of None \<Rightarrow> JObject [] | Some v \<Rightarrow> v)
      = JObject entries"
    by (auto simp: mcs_agent_section_def split: option.splits json.splits)
  from a have "\<not> get_truthy entries field"
    by (simp add: get_truthy_falsy)
  with a have "\<not> (get_truthy entries ''tenant_id'' \<and> get_truthy entries ''app_client_id''
      \<and> get_truthy entries ''environment_id'' \<and> get_truthy entries ''agent_identifier'')"
    by (auto simp: mcs_agent_fields_def)
  with s show "create_mcs_agent_config config_data = Inr None"
    by (auto simp: create_mcs_agent_config_def)
next
  show "create_target ''mcs_agent_callback'' None =
      Inl (PyExc ValueError ''MCS Agent config is required for MCS Agent callback target'')"
    by (simp add: create_target_def)
next
  assume "mcs_agent_section config_data = None"
  then show "\<exists>v. map_of config_data ''mcs_agent'' = Some v
           \<and> create_mcs_agent_config config_data =
              Inl (PyExc AttributeError
                    (quoted (type_name v) @ '' object has no attribute '' @ quoted ''get''))"
    by (rule create_mcs_agent_config_section_not_dict)
qed

theorem create_mcs_agent_config_unconfigured_witness:
  "mcs_agent_section (config_data_example (JString [])) =
     Some [(''tenant_id'', JString ''tenant''), (''app_client_id'', JString []),
           (''environment_id'', JString ''env''), (''agent_identifier'', JString ''agent'')]
   \<and> ''app_client_id'' \<in> set mcs_agent_fields
   \<and> map_of [(''tenant_id'', JString ''tenant''), (''app_client_id'', JString []),
              (''environment_id'', JString ''env''), (''agent_identifier'', JString ''agent'')]
        ''app_client_id'' = Some (JString [])
   \<and> create_mcs_agent_config (config_data_example (JString [])) = Inr None
   \<and> create_target ''mcs_agent_callback'' None =
       Inl (PyExc ValueError ''MCS Agent config is required for MCS Agent callback target'')
   \<and> create_mcs_agent_config (config_data_example (JString ''app'')) =
       Inr (Some \<lparr>tenant_id = JString ''tenant'', app_client_id = JString ''app'',
                  environment_id = JString ''env'', agent_identifier = JString ''agent''\<rparr>)
   \<and> mcs_agent_section [(''mcs_agent'', JString ''agent'')] = None
   \<and> create_mcs_agent_config [(''mcs_agent'', JString ''agent'')] =
       Inl (PyExc AttributeError
             (quoted ''str'' @ '' object has no attribute '' @ quoted ''get''))"
proof -
  let ?entries = "[(''tenant_id'', JString ''tenant''), (''app_client_id'', JString []),
           (''environment_id'', JString ''env''), (''agent_identifier'', JString ''agent'')]"
  have s: "mcs_agent_section (config_data_example (JString [])) = Some ?entries"
    by (simp add: mcs_agent_section_def config_data_example_def)
  have f: "''app_client_id'' \<in> set mcs_agent_fields"
    by (simp add: mcs_agent_fields_def)
  have m: "map_of ?entries ''app_client_id'' = Some (JString [])"
    by simp
  then have d: "map_of ?entries ''app_client_id'' = None
      \<or> map_of ?entries ''app_client_id'' = Some (JString [])"
    by (rule disjI2)
  have c: "create_mcs_agent_config (config_data_example (JString ''app'')) =
       Inr (Some \<lparr>tenant_id = JString ''tenant'', app_client_id = JString ''app'',
                  environment_id = JString ''env'', agent_identifier = JString ''agent''\<rparr>)"
    by (simp add: create_mcs_agent_config_def config_data_example_def get_truthy_def
          getitem_json_def)
  have z: "mcs_agent_section [(''mcs_agent'', JString ''agent'')] = None"
    by (simp add: mcs_agent_section_def)
  note u = create_mcs_agent_config_unconfigured
    [where config_data = "config_data_example (JString [])" and entries = ?entries
       and field = "''app_client_id''", THEN conjunct1, THEN mp, OF conjI [OF s conjI [OF f d]]]
  note w = create_mcs_agent_config_unconfigured
    [where config_data = "[(''mcs_agent'', JString ''agent'')]", THEN conjunct2, THEN mp, OF z]
  from w have w': "create_mcs_agent_config [(''mcs_agent'', JString ''agent'')] =
       Inl (PyExc AttributeError
             (quoted ''str'' @ '' object has no attribute '' @ quoted ''get''))"
    by auto
  from u s f m c z w' show ?thesis by blast
qed

text \<open>
  C10 as stated fails: in the configuration \<open>{"mcs_agent": null}\<close> the section holds none of
  the four fields, and \<open>create_mcs_agent_config\<close> does not return \<open>None\<close>: \<open>None\<close> has no \<open>get\<close>
  and the call raises an \<open>AttributeError\<close>.
\<close>

theorem create_mcs_agent_config_unconfigured_counterexample:
  "map_of [(''mcs_agent'', JNull)] ''mcs_agent'' = Some JNull
   \<and> create_mcs_agent_config [(''mcs_agent'', JNull)] =
       Inl (PyExc AttributeError
             (quoted ''NoneType'' @ '' object has no attribute '' @ quoted ''get''))"
  by (simp add: create_mcs_agent_config_def)

end
